theory Spec2Isabelle
  imports Complex_Main "HOL-Library.Log_Nat"
begin

section \<open>Python floats\<close>

text \<open>
  A Python \<open>float\<close> is an IEEE 754 binary64 number. The finite ones are rationals, and
  \<open>+\<close>, \<open>-\<close>, \<open>*\<close>, \<open>/\<close> return the exact result rounded to the nearest
  representable number, ties to the even mantissa. \<open>rnd\<close> is that rounding: \<open>binade x\<close>
  is the exponent \<open>e\<close> with \<open>2^e \<le> |x| < 2^(e+1)\<close>, the spacing of the doubles there is
  \<open>2^(e-52)\<close>, and never below \<open>2^-1074\<close> (subnormals). Infinities, NaN and the sign of
  zero are not represented: the model is the code on finite values below \<open>2^1024\<close>.
\<close>

type_synonym double = rat

definition pow2 :: "int \<Rightarrow> rat" where
  "pow2 e = (if 0 \<le> e then 2 ^ nat e else 1 / 2 ^ nat (- e))"

definition binade :: "rat \<Rightarrow> int" where
  "binade x = (let a = \<bar>x\<bar> in
     if 1 \<le> a then bitlen \<lfloor>a\<rfloor> - 1 else - bitlen (\<lceil>1 / a\<rceil> - 1))"

definition round_half_even :: "rat \<Rightarrow> int" where
  "round_half_even x = (let f = \<lfloor>x\<rfloor>; d = x - of_int f in
     if d < 1 / 2 then f else if 1 / 2 < d then f + 1
     else if even f then f else f + 1)"

definition rnd :: "rat \<Rightarrow> double" where
  "rnd x = (if x = 0 then 0 else
     let q = pow2 (max (binade x - 52) (- 1074)) in of_int (round_half_even (x / q)) * q)"

datatype py_error = ValueError | TypeError | KeyError | ZeroDivisionError | GeodesicError

definition fadd :: "double \<Rightarrow> double \<Rightarrow> double" where
  "fadd x y = rnd (x + y)"

definition fsub :: "double \<Rightarrow> double \<Rightarrow> double" where
  "fsub x y = rnd (x - y)"

definition fmul :: "double \<Rightarrow> double \<Rightarrow> double" where
  "fmul x y = rnd (x * y)"

text \<open>Python raises \<open>ZeroDivisionError\<close> on a float division by zero.\<close>

definition fdiv :: "double \<Rightarrow> double \<Rightarrow> py_error + double" where
  "fdiv x y = (if y = 0 then Inl ZeroDivisionError else Inr (rnd (x / y)))"

text \<open>
  The conversion of an \<open>int\<close> operand in mixed arithmetic such as \<open>lobes + 2.0\<close>.
  Python raises \<open>OverflowError\<close> for an int of magnitude \<open>2^1024\<close> or more; the model
  is the code on the ints below that.
\<close>

definition int_to_float :: "int \<Rightarrow> double" where
  "int_to_float i = rnd (of_int i)"

text \<open>\<open>int(x)\<close> of a float truncates toward zero.\<close>

definition py_trunc :: "double \<Rightarrow> int" where
  "py_trunc d = (if 0 \<le> d then \<lfloor>d\<rfloor> else \<lceil>d\<rceil>)"

section \<open>Data model\<close>

datatype QgsPointXY = QgsPointXY (pt_x: double) (pt_y: double)

text \<open>An attribute value as Python sees it: an int, a float, a str, or the NULL variant.\<close>

datatype qvariant = QInt int | QDouble double | QString string | QNull

datatype qtype = TInt | TDouble | TString

record QgsField =
  fname :: string
  ftype :: qtype

text \<open>
  An input feature: its attributes in field order, under their field names, and its
  point geometry in the layer's own reference frame.
\<close>

record feature =
  attrs :: "(string \<times> qvariant) list"
  geometry :: QgsPointXY

record source =
  src_fields :: "QgsField list"
  src_is4326 :: bool
  src_featureCount :: int
  src_features :: "feature list"

text \<open>The values of the algorithm's parameters, under the names of their keys.\<close>

record params =
  PrmShapeType :: int
  PrmLobesField :: string
  PrmStartingAngleField :: string
  PrmRadiusField :: string
  PrmLobes :: int
  PrmRadius :: double
  PrmStartingAngle :: double
  PrmUnitsOfMeasure :: int
  PrmDrawingSegments :: int
  PrmExportInputGeometry :: bool

text \<open>
  What the algorithm calls and this file does not define: the \<open>math\<close> module, the
  parsing of a string by \<open>float\<close> and \<open>int\<close>, the geodesic solver
  (\<open>geod_Direct lat lon azimuth distance\<close> gives \<open>(lat2, lon2)\<close>, or \<open>None\<close> when it
  raises), the two coordinate transforms, \<open>conversionToMeters\<close>,
  \<open>settings.getGeomNames\<close>, and the answers of \<open>feedback.isCanceled()\<close>, numbered by
  the call.
\<close>

record env =
  m_cos :: "double \<Rightarrow> double"
  m_sin :: "double \<Rightarrow> double"
  m_atan2 :: "double \<Rightarrow> double \<Rightarrow> double"
  m_sqrt :: "double \<Rightarrow> double"
  m_radians :: "double \<Rightarrow> double"
  m_degrees :: "double \<Rightarrow> double"
  str_to_float :: "string \<Rightarrow> double option"
  str_to_int :: "string \<Rightarrow> int option"
  geod_Direct :: "double \<Rightarrow> double \<Rightarrow> double \<Rightarrow> double \<Rightarrow> (double \<times> double) option"
  geomTo4326 :: "double \<Rightarrow> double \<Rightarrow> QgsPointXY"
  toSinkCrs :: "QgsPointXY \<Rightarrow> QgsPointXY"
  conversionToMeters :: "int \<Rightarrow> double"
  getGeomNames :: "string list \<Rightarrow> string \<times> string"
  isCanceled :: "nat \<Rightarrow> bool"

datatype geom = Polygon "QgsPointXY list list" | LineString "QgsPointXY list"

record out_feature =
  geom_of :: geom
  attributes :: "qvariant list"

section \<open>Reading the parameters of one feature\<close>

definition py_float :: "env \<Rightarrow> qvariant \<Rightarrow> py_error + double" where
  "py_float env v = (case v of
       QInt i \<Rightarrow> Inr (int_to_float i)
     | QDouble d \<Rightarrow> Inr d
     | QString s \<Rightarrow> (case str_to_float env s of None \<Rightarrow> Inl ValueError | Some d \<Rightarrow> Inr d)
     | QNull \<Rightarrow> Inl TypeError)"

definition py_int :: "env \<Rightarrow> qvariant \<Rightarrow> py_error + int" where
  "py_int env v = (case v of
       QInt i \<Rightarrow> Inr i
     | QDouble d \<Rightarrow> Inr (py_trunc d)
     | QString s \<Rightarrow> (case str_to_int env s of None \<Rightarrow> Inl ValueError | Some i \<Rightarrow> Inr i)
     | QNull \<Rightarrow> Inl TypeError)"

text \<open>\<open>feature[name]\<close> raises \<open>KeyError\<close> when the feature has no field of that name.\<close>

definition feature_get :: "feature \<Rightarrow> string \<Rightarrow> py_error + qvariant" where
  "feature_get f name = (case map_of (attrs f) name of None \<Rightarrow> Inl KeyError | Some v \<Rightarrow> Inr v)"

definition get_float :: "env \<Rightarrow> feature \<Rightarrow> string \<Rightarrow> py_error + double" where
  "get_float env f name = (case feature_get f name of Inl e \<Rightarrow> Inl e | Inr v \<Rightarrow> py_float env v)"

definition get_int :: "env \<Rightarrow> feature \<Rightarrow> string \<Rightarrow> py_error + int" where
  "get_int env f name = (case feature_get f name of Inl e \<Rightarrow> Inl e | Inr v \<Rightarrow> py_int env v)"

text \<open>
  The local variables of \<open>processAlgorithm\<close> that are set before the loop over the
  features: \<open>measureFactor\<close>, \<open>radius\<close> after \<open>radius *= measureFactor\<close>, \<open>r2\<close>,
  \<open>step\<close> and \<open>total\<close>.
\<close>

record locals =
  l_measureFactor :: double
  l_radius :: double
  l_r2 :: double
  l_step :: double
  l_total :: double

record feature_params =
  sangle :: double
  lobes2 :: int
  radius2 :: double
  r_scale :: double

text \<open>
  The body of the \<open>try\<close> block: \<open>Inl e\<close> is the exception that the \<open>except\<close> clause
  catches. A field name that is the empty string is a parameter that was not given.
\<close>

definition resolve_params :: "env \<Rightarrow> params \<Rightarrow> locals \<Rightarrow> feature \<Rightarrow> py_error + feature_params" where
  "resolve_params env p loc f =
    (case (if PrmStartingAngleField p \<noteq> [] then get_float env f (PrmStartingAngleField p)
           else Inr (PrmStartingAngle p)) of
       Inl e \<Rightarrow> Inl e
     | Inr sa \<Rightarrow>
    (case (if PrmLobesField p \<noteq> [] then get_int env f (PrmLobesField p)
           else Inr (PrmLobes p)) of
       Inl e \<Rightarrow> Inl e
     | Inr lb \<Rightarrow>
    (case (if PrmRadiusField p \<noteq> []
           then (case get_float env f (PrmRadiusField p) of
                   Inl e \<Rightarrow> Inl e | Inr v \<Rightarrow> Inr (fmul v (l_measureFactor loc)))
           else Inr (l_radius loc)) of
       Inl e \<Rightarrow> Inl e
     | Inr rad \<Rightarrow>
    (case (if PrmLobesField p \<noteq> [] \<or> PrmRadiusField p \<noteq> []
           then fdiv rad (fadd (int_to_float lb) 2)
           else Inr (l_r2 loc)) of
       Inl e \<Rightarrow> Inl e
     | Inr r \<Rightarrow> Inr \<lparr>sangle = sa, lobes2 = lb, radius2 = rad, r_scale = r\<rparr>))))"

section \<open>The epicycloid of one feature\<close>

text \<open>
  The result of code that can raise or loop: \<open>Diverged\<close> is a loop that has not ended
  within the fuel it was given.
\<close>

datatype 'a outcome = Diverged | Raised py_error | Returned 'a

text \<open>
  The loop \<open>while angle <= 360.0\<close>, from the values of \<open>angle\<close> and \<open>pts\<close> at its head.
  The fuel bounds the number of iterations; \<open>geod.Direct\<close> is called outside the
  \<open>try\<close> block, so its exception leaves the loop.
\<close>

fun sample_loop :: "env \<Rightarrow> nat \<Rightarrow> QgsPointXY \<Rightarrow> feature_params \<Rightarrow> double \<Rightarrow> double
    \<Rightarrow> QgsPointXY list \<Rightarrow> QgsPointXY list outcome" where
  "sample_loop env 0 pt fp stp angle pts = (if angle \<le> 360 then Diverged else Returned pts)"
| "sample_loop env (Suc n) pt fp stp angle pts =
    (if angle \<le> 360 then
       (let a = m_radians env angle;
            x = fsub (fmul (fmul (r_scale fp) (fadd (int_to_float (lobes2 fp)) 1)) (m_cos env a))
                     (fmul (r_scale fp) (m_cos env (fmul (fadd (int_to_float (lobes2 fp)) 1) a)));
            y = fsub (fmul (fmul (r_scale fp) (fadd (int_to_float (lobes2 fp)) 1)) (m_sin env a))
                     (fmul (r_scale fp) (m_sin env (fmul (fadd (int_to_float (lobes2 fp)) 1) a)));
            a2 = fadd (m_degrees env (m_atan2 env y x)) (sangle fp);
            dist = m_sqrt env (fadd (fmul x x) (fmul y y))
        in case geod_Direct env (pt_y pt) (pt_x pt) a2 dist of
             None \<Rightarrow> Raised GeodesicError
           | Some (lat2, lon2) \<Rightarrow>
               sample_loop env n pt fp stp (fadd angle stp) (pts @ [QgsPointXY lon2 lat2]))
     else Returned pts)"

text \<open>
  Modelled from the spec: \<open>makeIdlCrossingsPositive\<close> is imported from \<open>utils\<close>, which is
  not among the sources. This is the normalizer's detection of a crossing: a jump of more
  than 180 degrees of longitude between consecutive points. The spec speaks of degrees,
  not of floats, so the arithmetic of the normalizer is exact.
\<close>

fun hasIdlCrossing :: "QgsPointXY list \<Rightarrow> bool" where
  "hasIdlCrossing (p # q # ps) = (180 < \<bar>pt_x p - pt_x q\<bar> \<or> hasIdlCrossing (q # ps))"
| "hasIdlCrossing ps = False"

text \<open>
  Modelled from the spec: the shift of one longitude by \<open>makeIdlCrossingsPositive\<close> (in
  \<open>utils\<close>, not among the sources). A longitude more than 180 degrees away from the
  normalized longitude before it is moved by 360 degrees, one way or the other as needed.
\<close>

definition shift_toward :: "double \<Rightarrow> double \<Rightarrow> double" where
  "shift_toward prev lon =
     (if 180 < lon - prev then lon - 360 else if lon - prev < - 180 then lon + 360 else lon)"

text \<open>
  Modelled from the spec: the pass of \<open>makeIdlCrossingsPositive\<close> (in \<open>utils\<close>, not among
  the sources) over the points after the first, each shifted consistently with the
  normalized point before it; the latitudes, the number and the order of the points are
  kept.
\<close>

fun follow :: "double \<Rightarrow> QgsPointXY list \<Rightarrow> QgsPointXY list" where
  "follow prev [] = []"
| "follow prev (p # ps) =
     QgsPointXY (shift_toward prev (pt_x p)) (pt_y p) # follow (shift_toward prev (pt_x p)) ps"

text \<open>
  Modelled from the spec: \<open>makeIdlCrossingsPositive\<close> (in \<open>utils\<close>, not among the sources),
  the Antimeridian Normalizer. The points that cross the antimeridian are shifted by 360
  degrees one way or the other, as needed and consistently, so that the longitudes of the
  path follow one another. The source mutates the list; the model returns the new one.
\<close>

definition makeIdlCrossingsPositive :: "QgsPointXY list \<Rightarrow> QgsPointXY list" where
  "makeIdlCrossingsPositive pts = (case pts of [] \<Rightarrow> [] | p # ps \<Rightarrow> p # follow (pt_x p) ps)"

text \<open>
  The rest of the loop body for a feature whose parameters were read: the anchor, the
  samples, the normalization, the transform back and the output feature.
\<close>

definition build_feature :: "env \<Rightarrow> params \<Rightarrow> bool \<Rightarrow> locals \<Rightarrow> nat \<Rightarrow> feature
    \<Rightarrow> feature_params \<Rightarrow> out_feature outcome" where
  "build_feature env p is_4326 loc fuel f fp =
    (let pt0 = geometry f;
         pt_orig_x = pt_x pt0;
         pt_orig_y = pt_y pt0;
         pt = (if \<not> is_4326 then geomTo4326 env (pt_x pt0) (pt_y pt0) else pt0)
     in case sample_loop env fuel pt fp (l_step loc) 0 [] of
          Diverged \<Rightarrow> Diverged
        | Raised e \<Rightarrow> Raised e
        | Returned pts0 \<Rightarrow>
            (let pts1 = makeIdlCrossingsPositive pts0;
                 pts = (if \<not> is_4326 then map (toSinkCrs env) pts1 else pts1);
                 g = (if PrmShapeType p = 0 then Polygon [pts] else LineString pts);
                 attr = map snd (attrs f) @
                   (if PrmExportInputGeometry p then [QDouble pt_orig_x, QDouble pt_orig_y] else [])
             in Returned \<lparr>geom_of = g, attributes = attr\<rparr>))"

section \<open>The loop over the features\<close>

record run_state =
  sink :: "out_feature list"
  numbad :: nat
  progress :: "int list"

datatype ending = Finished | Failed py_error | Unfinished

text \<open>
  \<open>feature_loop\<close> is the \<open>for\<close> loop from the feature of index \<open>index\<close> on: the state
  it leaves and how it ended. \<open>break\<close> on cancellation ends it as the end of the
  features does; an exception that \<open>except\<close> does not catch ends it as \<open>Failed\<close>.
\<close>

fun feature_loop :: "env \<Rightarrow> params \<Rightarrow> bool \<Rightarrow> locals \<Rightarrow> nat \<Rightarrow> nat \<Rightarrow> feature list
    \<Rightarrow> run_state \<Rightarrow> run_state \<times> ending" where
  "feature_loop env p is_4326 loc fuel index [] st = (st, Finished)"
| "feature_loop env p is_4326 loc fuel index (f # fs) st =
    (if isCanceled env index then (st, Finished)
     else case resolve_params env p loc f of
       Inl e \<Rightarrow> feature_loop env p is_4326 loc fuel (Suc index) fs (st\<lparr>numbad := numbad st + 1\<rparr>)
     | Inr fp \<Rightarrow>
        (case build_feature env p is_4326 loc fuel f fp of
           Diverged \<Rightarrow> (st, Unfinished)
         | Raised e \<Rightarrow> (st, Failed e)
         | Returned g \<Rightarrow>
             feature_loop env p is_4326 loc fuel (Suc index) fs
               (st\<lparr>sink := sink st @ [g],
                   progress := (if index mod 100 = 0
                      then progress st @ [py_trunc (fmul (int_to_float (int index)) (l_total loc))]
                      else progress st)\<rparr>)))"

text \<open>
  One iteration, seen from outside the loop: whether the \<open>except\<close> clause rejects the
  feature, whether its iteration runs to its end (rejected, or built and written), and what
  it adds to the sink.
\<close>

definition rejected :: "env \<Rightarrow> params \<Rightarrow> locals \<Rightarrow> feature \<Rightarrow> bool" where
  "rejected env p loc f = (case resolve_params env p loc f of Inl e \<Rightarrow> True | Inr fp \<Rightarrow> False)"

definition completes :: "env \<Rightarrow> params \<Rightarrow> bool \<Rightarrow> locals \<Rightarrow> nat \<Rightarrow> feature \<Rightarrow> bool" where
  "completes env p is_4326 loc fuel f =
     (case resolve_params env p loc f of
        Inl e \<Rightarrow> True
      | Inr fp \<Rightarrow> (case build_feature env p is_4326 loc fuel f fp of
                    Returned g \<Rightarrow> True | Raised e \<Rightarrow> False | Diverged \<Rightarrow> False))"

definition feature_output :: "env \<Rightarrow> params \<Rightarrow> bool \<Rightarrow> locals \<Rightarrow> nat \<Rightarrow> feature
    \<Rightarrow> out_feature list" where
  "feature_output env p is_4326 loc fuel f =
     (case resolve_params env p loc f of
        Inl e \<Rightarrow> []
      | Inr fp \<Rightarrow> (case build_feature env p is_4326 loc fuel f fp of
                    Returned g \<Rightarrow> [g] | Raised e \<Rightarrow> [] | Diverged \<Rightarrow> []))"

datatype wkb = WkbPolygon | WkbLineString

record run_result =
  out_fields :: "QgsField list"
  out_wkb :: wkb
  out_state :: run_state
  out_info :: "(nat \<times> int) option"
  out_ending :: ending

text \<open>
  \<open>processAlgorithm\<close>: \<open>Inl e\<close> is an exception raised before the sink exists (the
  division for \<open>r2\<close>). The division for \<open>step\<close> comes after the sink was made. The
  message about ignored features is the pair of numbers it prints.
\<close>

definition processAlgorithm :: "env \<Rightarrow> params \<Rightarrow> source \<Rightarrow> nat \<Rightarrow> py_error + run_result" where
  "processAlgorithm env p src fuel =
    (let measureFactor = conversionToMeters env (PrmUnitsOfMeasure p);
         radius = fmul (PrmRadius p) measureFactor
     in case fdiv radius (fadd (int_to_float (PrmLobes p)) 2) of
          Inl e \<Rightarrow> Inl e
        | Inr r2 \<Rightarrow>
     (let flds = (if PrmExportInputGeometry p
                  then (case getGeomNames env (map fname (src_fields src)) of
                          (name_x, name_y) \<Rightarrow> src_fields src @
                             [\<lparr>fname = name_x, ftype = TDouble\<rparr>, \<lparr>fname = name_y, ftype = TDouble\<rparr>])
                  else src_fields src);
          w = (if PrmShapeType p = 0 then WkbPolygon else WkbLineString);
          total = (if src_featureCount src \<noteq> 0
                   then rnd (100 / int_to_float (src_featureCount src)) else 0);
          st0 = \<lparr>sink = [], numbad = 0, progress = []\<rparr>
      in case fdiv 360 (int_to_float (PrmDrawingSegments p)) of
           Inl e \<Rightarrow> Inr \<lparr>out_fields = flds, out_wkb = w, out_state = st0, out_info = None,
                          out_ending = Failed e\<rparr>
         | Inr stp \<Rightarrow>
            (case feature_loop env p (src_is4326 src)
                    \<lparr>l_measureFactor = measureFactor, l_radius = radius, l_r2 = r2,
                     l_step = stp, l_total = total\<rparr>
                    fuel 0 (src_features src) st0 of
               (st, e) \<Rightarrow>
                 Inr \<lparr>out_fields = flds, out_wkb = w, out_state = st,
                      out_info = (if e = Finished \<and> 0 < numbad st
                                  then Some (numbad st, src_featureCount src) else None),
                      out_ending = e\<rparr>)))"

section \<open>The sampler and the projector as the specification words them\<close>

text \<open>
  The formulas of the Epicycloid Sampler, with the operators read as float operations, and
  the Geodesic Projector: the destination as a point \<open>(lon2, lat2)\<close>.
\<close>

definition epi_x :: "env \<Rightarrow> double \<Rightarrow> int \<Rightarrow> double \<Rightarrow> double" where
  "epi_x env r lobes \<theta> =
     fsub (fmul (fmul r (fadd (int_to_float lobes) 1)) (m_cos env \<theta>))
          (fmul r (m_cos env (fmul (fadd (int_to_float lobes) 1) \<theta>)))"

definition epi_y :: "env \<Rightarrow> double \<Rightarrow> int \<Rightarrow> double \<Rightarrow> double" where
  "epi_y env r lobes \<theta> =
     fsub (fmul (fmul r (fadd (int_to_float lobes) 1)) (m_sin env \<theta>))
          (fmul r (m_sin env (fmul (fadd (int_to_float lobes) 1) \<theta>)))"

definition bearing :: "env \<Rightarrow> double \<Rightarrow> double \<Rightarrow> double \<Rightarrow> double" where
  "bearing env x y startingAngle = fadd (m_degrees env (m_atan2 env y x)) startingAngle"

definition distance :: "env \<Rightarrow> double \<Rightarrow> double \<Rightarrow> double" where
  "distance env x y = m_sqrt env (fadd (fmul x x) (fmul y y))"

definition project :: "env \<Rightarrow> QgsPointXY \<Rightarrow> double \<Rightarrow> double \<Rightarrow> QgsPointXY option" where
  "project env anchor b d =
     map_option (\<lambda>(lat2, lon2). QgsPointXY lon2 lat2) (geod_Direct env (pt_y anchor) (pt_x anchor) b d)"

text \<open>The values that \<open>angle\<close> takes in the bodies of the \<open>while\<close> loop, in order.\<close>

fun loop_angles :: "nat \<Rightarrow> double \<Rightarrow> double \<Rightarrow> double list option" where
  "loop_angles 0 stp angle = (if angle \<le> 360 then None else Some [])"
| "loop_angles (Suc n) stp angle =
    (if angle \<le> 360 then map_option ((#) angle) (loop_angles n stp (fadd angle stp))
     else Some [])"



section \<open>Concrete inputs\<close>

text \<open>
  An environment to evaluate the definitions on. Its math functions and its solver are
  stand-ins with exact values (the solver refuses a latitude beyond the poles); the
  theorems below hold for every environment.
\<close>

definition stub_env :: env where
  "stub_env = \<lparr>m_cos = (\<lambda>a. 1), m_sin = (\<lambda>a. 0), m_atan2 = (\<lambda>y x. 0),
     m_sqrt = (\<lambda>v. v), m_radians = (\<lambda>d. d), m_degrees = (\<lambda>r. r),
     str_to_float = (\<lambda>s. if s = ''40'' then Some 40 else None),
     str_to_int = (\<lambda>s. if s = ''6'' then Some 6 else None),
     geod_Direct = (\<lambda>lat lon az dist. if \<bar>lat\<bar> \<le> 90 then Some (lat, lon) else None),
     geomTo4326 = QgsPointXY, toSinkCrs = (\<lambda>q. q), conversionToMeters = (\<lambda>u. 1000),
     getGeomNames = (\<lambda>ns. (''geom_x'', ''geom_y'')), isCanceled = (\<lambda>i. False)\<rparr>"

definition demo_params :: params where
  "demo_params = \<lparr>PrmShapeType = 0, PrmLobesField = [], PrmStartingAngleField = [],
     PrmRadiusField = [], PrmLobes = 6, PrmRadius = 40, PrmStartingAngle = 0,
     PrmUnitsOfMeasure = 0, PrmDrawingSegments = 4, PrmExportInputGeometry = False\<rparr>"

definition demo_locals :: locals where
  "demo_locals = \<lparr>l_measureFactor = 1000, l_radius = 40000, l_r2 = 5000, l_step = 90,
     l_total = 50\<rparr>"

definition demo_fp :: feature_params where
  "demo_fp = \<lparr>sangle = 0, lobes2 = 6, radius2 = 40000, r_scale = 5000\<rparr>"

definition demo_fields :: "QgsField list" where
  "demo_fields = [\<lparr>fname = ''id'', ftype = TInt\<rparr>, \<lparr>fname = ''lobes'', ftype = TString\<rparr>,
     \<lparr>fname = ''radius'', ftype = TDouble\<rparr>]"

definition f_ok :: feature where
  "f_ok = \<lparr>attrs = [(''id'', QInt 1), (''lobes'', QString ''6''), (''radius'', QDouble 40)],
     geometry = QgsPointXY 10 20\<rparr>"

definition f_unparsable :: feature where
  "f_unparsable = \<lparr>attrs = [(''id'', QInt 2), (''lobes'', QString ''six''), (''radius'', QNull)],
     geometry = QgsPointXY 11 21\<rparr>"

definition f_zero :: feature where
  "f_zero = \<lparr>attrs = [(''id'', QInt 3), (''lobes'', QInt 0), (''radius'', QDouble 40)],
     geometry = QgsPointXY 12 22\<rparr>"

definition f_minus2 :: feature where
  "f_minus2 = \<lparr>attrs = [(''id'', QInt 4), (''lobes'', QInt (- 2)), (''radius'', QDouble 40)],
     geometry = QgsPointXY 13 23\<rparr>"

text \<open>What the run writes for \<open>f_ok\<close> under the stand-in solver.\<close>

definition g_ok :: out_feature where
  "g_ok = \<lparr>geom_of = Polygon [[QgsPointXY 10 20, QgsPointXY 10 20, QgsPointXY 10 20,
               QgsPointXY 10 20, QgsPointXY 10 20]],
           attributes = [QInt 1, QString ''6'', QDouble 40]\<rparr>"

definition st0 :: run_state where
  "st0 = \<lparr>sink = [], numbad = 0, progress = []\<rparr>"

definition shifted_env :: env where
  "shifted_env = stub_env\<lparr>geomTo4326 := (\<lambda>x y. QgsPointXY (x - 100) (y - 50)),
     toSinkCrs := (\<lambda>q. QgsPointXY (pt_x q + 100) (pt_y q + 50))\<rparr>"

text \<open>A run with the flag to export the input geometry, on a layer in another frame.\<close>

definition export_params :: params where
  "export_params = demo_params\<lparr>PrmExportInputGeometry := True\<rparr>"

definition export_source :: source where
  "export_source = \<lparr>src_fields = demo_fields, src_is4326 = False, src_featureCount = 1,
     src_features = [f_ok]\<rparr>"

definition g_export :: out_feature where
  "g_export = \<lparr>geom_of = Polygon [[QgsPointXY 10 20, QgsPointXY 10 20, QgsPointXY 10 20,
                  QgsPointXY 10 20, QgsPointXY 10 20]],
               attributes = [QInt 1, QString ''6'', QDouble 40, QDouble 10, QDouble 20]\<rparr>"

definition export_result :: run_result where
  "export_result = \<lparr>out_fields = demo_fields @
       [\<lparr>fname = ''geom_x'', ftype = TDouble\<rparr>, \<lparr>fname = ''geom_y'', ftype = TDouble\<rparr>],
     out_wkb = WkbPolygon,
     out_state = \<lparr>sink = [g_export], numbad = 0, progress = [0]\<rparr>,
     out_info = None, out_ending = Finished\<rparr>"

definition cancel_env :: env where
  "cancel_env = stub_env\<lparr>isCanceled := (\<lambda>i. 2 \<le> i)\<rparr>"


definition spiral_path :: "QgsPointXY list" where
  "spiral_path = [QgsPointXY 100 85, QgsPointXY (- 100) 85, QgsPointXY 60 86,
     QgsPointXY (- 140) 86, QgsPointXY 20 87, QgsPointXY (- 180) 87]"

section \<open>Rounding of small integers\<close>

lemma round_half_even_of_int: "round_half_even (of_int m) = m"
  by (simp add: round_half_even_def)

lemma bitlen_pos: "0 < i \<Longrightarrow> 1 \<le> bitlen i"
  using bitlen_nonneg [of "i div 2"] by (subst compute_bitlen) simp

lemma binade_of_int: "i \<noteq> 0 \<Longrightarrow> binade (of_int i) = bitlen \<bar>i\<bar> - 1"
proof -
  assume "i \<noteq> 0"
  then have "1 \<le> \<bar>i\<bar>" by simp
  then have "(1::rat) \<le> of_int \<bar>i\<bar>" by (simp only: of_int_1_le_iff)
  moreover have "\<bar>of_int i :: rat\<bar> = of_int \<bar>i\<bar>" by simp
  ultimately show ?thesis by (simp add: binade_def Let_def del: of_int_abs)
qed

lemma rnd_of_int:
  assumes "bitlen \<bar>i\<bar> \<le> 53"
  shows "rnd (of_int i) = of_int i"
proof (cases "i = 0")
  case True
  then show ?thesis by (simp add: rnd_def)
next
  case False
  define n where "n = nat (53 - bitlen \<bar>i\<bar>)"
  have b: "1 \<le> bitlen \<bar>i\<bar>" using False by (simp add: bitlen_pos)
  have e: "max (binade (of_int i) - 52) (- 1074) = - int n"
    using assms b False by (simp add: binade_of_int n_def)
  have q: "pow2 (- int n) = 1 / 2 ^ n"
    by (simp add: pow2_def)
  have "of_int i * 2 ^ n = (of_int (i * 2 ^ n) :: rat)" by simp
  then have r: "round_half_even (of_int i * 2 ^ n) = i * 2 ^ n"
    by (simp only: round_half_even_of_int)
  show ?thesis
    using False by (simp add: rnd_def Let_def e q r)
qed

lemma rnd_numeral: "bitlen (numeral k) \<le> 53 \<Longrightarrow> rnd (numeral k) = numeral k"
  using rnd_of_int [of "numeral k"] by simp

lemma rnd_neg_numeral: "bitlen (numeral k) \<le> 53 \<Longrightarrow> rnd (- numeral k) = - numeral k"
  using rnd_of_int [of "- numeral k"] by simp

lemma rnd_0: "rnd 0 = 0" by (simp add: rnd_def)

lemma rnd_1: "rnd 1 = 1" using rnd_of_int [of 1] by (simp add: compute_bitlen)

lemmas float_eval = fadd_def fsub_def fmul_def fdiv_def int_to_float_def rnd_numeral rnd_neg_numeral
  rnd_0 rnd_1 compute_bitlen


section \<open>Parameter reading\<close>

lemma get_float_parse:
  "feature_get f name = Inr v \<Longrightarrow> py_float env v = Inl e \<Longrightarrow> get_float env f name = Inl e"
  by (simp add: get_float_def)

lemma get_int_parse:
  "feature_get f name = Inr v \<Longrightarrow> py_int env v = Inl e \<Longrightarrow> get_int env f name = Inl e"
  by (simp add: get_int_def)

lemma resolve_fails_angle:
  "PrmStartingAngleField p \<noteq> [] \<Longrightarrow> get_float env f (PrmStartingAngleField p) = Inl e \<Longrightarrow>
   \<exists>e'. resolve_params env p loc f = Inl e'"
  by (simp add: resolve_params_def)

lemma resolve_fails_lobes:
  "PrmLobesField p \<noteq> [] \<Longrightarrow> get_int env f (PrmLobesField p) = Inl e \<Longrightarrow>
   \<exists>e'. resolve_params env p loc f = Inl e'"
  by (simp add: resolve_params_def split: sum.splits)

lemma resolve_fails_radius:
  "PrmRadiusField p \<noteq> [] \<Longrightarrow> get_float env f (PrmRadiusField p) = Inl e \<Longrightarrow>
   \<exists>e'. resolve_params env p loc f = Inl e'"
  by (simp add: resolve_params_def split: sum.splits)

lemma minus_two_plus_two: "fadd (int_to_float (- 2)) 2 = 0"
  by (simp add: float_eval)

lemma resolve_fails_minus_two:
  "PrmLobesField p \<noteq> [] \<Longrightarrow> get_int env f (PrmLobesField p) = Inr (- 2) \<Longrightarrow>
   \<exists>e'. resolve_params env p loc f = Inl e'"
  by (simp add: resolve_params_def minus_two_plus_two fdiv_def split: sum.splits)




section \<open>The sampling loop\<close>

lemma sample_loop_angles:
  "sample_loop env fuel pt fp stp angle pts = Returned out \<Longrightarrow>
   \<exists>as ps. loop_angles fuel stp angle = Some as \<and> out = pts @ ps \<and>
     map Some ps = map (\<lambda>a.
        project env pt
          (bearing env (epi_x env (r_scale fp) (lobes2 fp) (m_radians env a))
                       (epi_y env (r_scale fp) (lobes2 fp) (m_radians env a)) (sangle fp))
          (distance env (epi_x env (r_scale fp) (lobes2 fp) (m_radians env a))
                        (epi_y env (r_scale fp) (lobes2 fp) (m_radians env a)))) as"
proof (induction fuel arbitrary: angle pts)
  case 0
  then show ?case by (simp split: if_splits)
next
  case (Suc n)
  show ?case
  proof (cases "angle \<le> 360")
    case False
    with Suc.prems show ?thesis by simp
  next
    case True
    let ?x = "epi_x env (r_scale fp) (lobes2 fp) (m_radians env angle)"
    let ?y = "epi_y env (r_scale fp) (lobes2 fp) (m_radians env angle)"
    from Suc.prems True obtain lat2 lon2 where
      d: "geod_Direct env (pt_y pt) (pt_x pt) (bearing env ?x ?y (sangle fp)) (distance env ?x ?y)
           = Some (lat2, lon2)"
      and r: "sample_loop env n pt fp stp (fadd angle stp) (pts @ [QgsPointXY lon2 lat2]) = Returned out"
      by (auto simp: Let_def epi_x_def epi_y_def bearing_def distance_def
          split: option.splits prod.splits)
    from Suc.IH [OF r] obtain as ps where
      a: "loop_angles n stp (fadd angle stp) = Some as"
      and o: "out = (pts @ [QgsPointXY lon2 lat2]) @ ps"
      and m: "map Some ps = map (\<lambda>a.
        project env pt
          (bearing env (epi_x env (r_scale fp) (lobes2 fp) (m_radians env a))
                       (epi_y env (r_scale fp) (lobes2 fp) (m_radians env a)) (sangle fp))
          (distance env (epi_x env (r_scale fp) (lobes2 fp) (m_radians env a))
                        (epi_y env (r_scale fp) (lobes2 fp) (m_radians env a)))) as"
      by blast
    have p: "project env pt (bearing env ?x ?y (sangle fp)) (distance env ?x ?y)
        = Some (QgsPointXY lon2 lat2)"
      using d by (simp add: project_def)
    show ?thesis
      apply (rule exI [of _ "angle # as"])
      apply (rule exI [of _ "QgsPointXY lon2 lat2 # ps"])
      using True a o m p by simp
  qed
qed

lemma sample_loop_total:
  assumes "\<And>az d. geod_Direct env (pt_y pt) (pt_x pt) az d \<noteq> None"
  shows "loop_angles fuel stp angle = Some as \<Longrightarrow>
     \<exists>out. sample_loop env fuel pt fp stp angle pts = Returned out
        \<and> length out = length pts + length as"
proof (induction fuel arbitrary: angle pts as)
  case 0
  then show ?case by (simp split: if_splits)
next
  case (Suc n)
  show ?case
  proof (cases "angle \<le> 360")
    case False
    with Suc.prems show ?thesis by simp
  next
    case True
    with Suc.prems obtain as' where a: "loop_angles n stp (fadd angle stp) = Some as'"
      and e: "as = angle # as'" by auto
    let ?x = "epi_x env (r_scale fp) (lobes2 fp) (m_radians env angle)"
    let ?y = "epi_y env (r_scale fp) (lobes2 fp) (m_radians env angle)"
    obtain lat2 lon2 where
      d: "geod_Direct env (pt_y pt) (pt_x pt) (bearing env ?x ?y (sangle fp)) (distance env ?x ?y)
           = Some (lat2, lon2)"
      using assms by (metis option.exhaust surj_pair)
    from Suc.IH [OF a, of "pts @ [QgsPointXY lon2 lat2]"] obtain out where
      "sample_loop env n pt fp stp (fadd angle stp) (pts @ [QgsPointXY lon2 lat2]) = Returned out"
      "length out = length (pts @ [QgsPointXY lon2 lat2]) + length as'" by blast
    then show ?thesis
      using True d e
      by (simp add: Let_def epi_x_def epi_y_def bearing_def distance_def)
  qed
qed

lemma angles_seven: "map_option length (loop_angles 8 (rnd (360 / 7)) 0) = Some 7"
  by code_simp

text \<open>
  C1. When the loop over the angles returns, its points are, in order, the projections of
  the anchor by the solver, one for each angle \<open>a\<close> that the loop went through, with
  \<open>\<theta> = radians(a)\<close>, the offsets \<open>x = r*(lobes+1)*cos(\<theta>) - r*cos((lobes+1)*\<theta>)\<close> and
  \<open>y = r*(lobes+1)*sin(\<theta>) - r*sin((lobes+1)*\<theta>)\<close>, the bearing
  \<open>degrees(atan2(y, x)) + startingAngle\<close> and the distance \<open>sqrt(x*x + y*y)\<close>.
\<close>

theorem samples_follow_epicycloid:
  assumes "sample_loop env fuel pt fp stp 0 [] = Returned out"
  shows "\<exists>as. loop_angles fuel stp 0 = Some as \<and>
     map Some out = map (\<lambda>a.
        project env pt
          (bearing env (epi_x env (r_scale fp) (lobes2 fp) (m_radians env a))
                       (epi_y env (r_scale fp) (lobes2 fp) (m_radians env a)) (sangle fp))
          (distance env (epi_x env (r_scale fp) (lobes2 fp) (m_radians env a))
                        (epi_y env (r_scale fp) (lobes2 fp) (m_radians env a)))) as"
  using sample_loop_angles [OF assms] by auto

lemma stub_samples:
  "sample_loop stub_env 8 (QgsPointXY 10 20) demo_fp 90 0 [] =
     Returned [QgsPointXY 10 20, QgsPointXY 10 20, QgsPointXY 10 20, QgsPointXY 10 20,
               QgsPointXY 10 20]"
  by (simp add: eval_nat_numeral float_eval stub_env_def demo_fp_def Let_def)

theorem samples_follow_epicycloid_witness:
  "sample_loop stub_env 8 (QgsPointXY 10 20) demo_fp 90 0 [] =
     Returned [QgsPointXY 10 20, QgsPointXY 10 20, QgsPointXY 10 20, QgsPointXY 10 20,
               QgsPointXY 10 20]
   \<and> (\<exists>as. loop_angles 8 90 0 = Some as \<and>
     map Some [QgsPointXY 10 20, QgsPointXY 10 20, QgsPointXY 10 20, QgsPointXY 10 20,
               QgsPointXY 10 20] = map (\<lambda>a.
        project stub_env (QgsPointXY 10 20)
          (bearing stub_env (epi_x stub_env (r_scale demo_fp) (lobes2 demo_fp) (m_radians stub_env a))
                       (epi_y stub_env (r_scale demo_fp) (lobes2 demo_fp) (m_radians stub_env a))
                       (sangle demo_fp))
          (distance stub_env (epi_x stub_env (r_scale demo_fp) (lobes2 demo_fp) (m_radians stub_env a))
                        (epi_y stub_env (r_scale demo_fp) (lobes2 demo_fp) (m_radians stub_env a)))) as)"
  by (rule conjI [OF stub_samples samples_follow_epicycloid [OF stub_samples]])

text \<open>
  C3. With 7 drawing segments the step is the double nearest to \<open>360/7\<close>, the seventh
  addition of the step gives a double above 360, and the loop, where the solver answers,
  returns 7 points, not the 8 that \<open>segments + 1\<close> asks for: the sample of 360 degrees
  that would close the curve is missing.
\<close>

theorem seven_segments_seven_samples:
  assumes "\<And>az d. geod_Direct env (pt_y pt) (pt_x pt) az d \<noteq> None"
  shows "\<exists>stp out. fdiv 360 (int_to_float 7) = Inr stp
     \<and> sample_loop env 8 pt fp stp 0 [] = Returned out \<and> length out = 7"
proof -
  have s: "fdiv 360 (int_to_float 7) = Inr (rnd (360 / 7))"
    by (simp add: fdiv_def int_to_float_def rnd_numeral compute_bitlen)
  from angles_seven obtain as where a: "loop_angles 8 (rnd (360 / 7)) 0 = Some as"
    and l: "length as = 7" by auto
  from sample_loop_total [OF assms a, of fp "[]"] l s show ?thesis by auto
qed

theorem seven_segments_seven_samples_witness:
  "(\<forall>az d. geod_Direct stub_env (pt_y (QgsPointXY 10 20)) (pt_x (QgsPointXY 10 20)) az d \<noteq> None)
   \<and> (\<exists>stp out. fdiv 360 (int_to_float 7) = Inr stp
     \<and> sample_loop stub_env 8 (QgsPointXY 10 20) demo_fp stp 0 [] = Returned out \<and> length out = 7)"
proof -
  have h: "\<And>az d. geod_Direct stub_env (pt_y (QgsPointXY 10 20)) (pt_x (QgsPointXY 10 20)) az d \<noteq> None"
    by (simp add: stub_env_def)
  from h seven_segments_seven_samples [of stub_env "QgsPointXY 10 20" demo_fp, OF h]
  show ?thesis by blast
qed

section \<open>A lobe count below one\<close>

lemma stub_units: "conversionToMeters stub_env u = 1000"
  by (simp add: stub_env_def)

lemma samples_zero:
  "sample_loop stub_env 8 (QgsPointXY 12 22)
     \<lparr>sangle = 0, lobes2 = 0, radius2 = 40000, r_scale = 20000\<rparr> 90 0 [] =
     Returned [QgsPointXY 12 22, QgsPointXY 12 22, QgsPointXY 12 22, QgsPointXY 12 22,
               QgsPointXY 12 22]"
  by (simp add: eval_nat_numeral float_eval stub_env_def Let_def)

lemma build_zero:
  "build_feature stub_env (demo_params\<lparr>PrmLobesField := ''lobes''\<rparr>) True demo_locals 8 f_zero
     \<lparr>sangle = 0, lobes2 = 0, radius2 = 40000, r_scale = 20000\<rparr> =
   Returned \<lparr>geom_of = Polygon [[QgsPointXY 12 22, QgsPointXY 12 22, QgsPointXY 12 22,
                QgsPointXY 12 22, QgsPointXY 12 22]],
             attributes = [QInt 3, QInt 0, QDouble 40]\<rparr>"
proof -
  have g: "geometry f_zero = QgsPointXY 12 22" by (simp add: f_zero_def)
  have s: "l_step demo_locals = 90" by (simp add: demo_locals_def)
  show ?thesis
    by (simp add: build_feature_def Let_def g s samples_zero makeIdlCrossingsPositive_def shift_toward_def
        demo_params_def f_zero_def)
qed

text \<open>
  C4. The lobes field of a feature reads as \<open>0\<close>, below the least value 1 that the
  parameter of the run declares: the feature is not rejected. Its parameters are read
  with \<open>lobes2 = 0\<close>, its shape is written to the sink and nothing is counted as bad.
\<close>

theorem lobes_zero_is_processed:
  "processAlgorithm stub_env (demo_params\<lparr>PrmLobesField := ''lobes''\<rparr>)
     \<lparr>src_fields = demo_fields, src_is4326 = True, src_featureCount = 1,
      src_features = [f_zero]\<rparr> 8 =
   Inr \<lparr>out_fields = demo_fields, out_wkb = WkbPolygon,
        out_state = \<lparr>sink = [\<lparr>geom_of = Polygon [[QgsPointXY 12 22, QgsPointXY 12 22,
                        QgsPointXY 12 22, QgsPointXY 12 22, QgsPointXY 12 22]],
                      attributes = [QInt 3, QInt 0, QDouble 40]\<rparr>],
                     numbad = 0, progress = [0]\<rparr>,
        out_info = None, out_ending = Finished\<rparr>"
proof -
  let ?p = "demo_params\<lparr>PrmLobesField := ''lobes''\<rparr>"
  have c: "\<not> isCanceled stub_env 0" by (simp add: stub_env_def)
  have t: "py_trunc (fmul (int_to_float 0) (l_total \<lparr>l_measureFactor = 1000, l_radius = 40000,
      l_r2 = 5000, l_step = 90, l_total = 100\<rparr>)) = 0"
    by (simp add: py_trunc_def float_eval)
  have e: "\<lparr>l_measureFactor = 1000, l_radius = 40000, l_r2 = 5000, l_step = 90, l_total = 100\<rparr>
      = demo_locals\<lparr>l_total := 100\<rparr>" by (simp add: demo_locals_def)
  have r: "resolve_params stub_env ?p (demo_locals\<lparr>l_total := 100\<rparr>) f_zero
     = Inr \<lparr>sangle = 0, lobes2 = 0, radius2 = 40000, r_scale = 20000\<rparr>"
    by (simp add: resolve_params_def demo_params_def demo_locals_def f_zero_def
      get_int_def feature_get_def py_int_def float_eval)
  have b: "build_feature stub_env ?p True (demo_locals\<lparr>l_total := 100\<rparr>) 8 f_zero
     \<lparr>sangle = 0, lobes2 = 0, radius2 = 40000, r_scale = 20000\<rparr> =
     build_feature stub_env ?p True demo_locals 8 f_zero
     \<lparr>sangle = 0, lobes2 = 0, radius2 = 40000, r_scale = 20000\<rparr>"
    by (simp add: build_feature_def)
  have f: "feature_loop stub_env ?p True
      \<lparr>l_measureFactor = 1000, l_radius = 40000, l_r2 = 5000, l_step = 90, l_total = 100\<rparr>
      8 0 [f_zero] \<lparr>sink = [], numbad = 0, progress = []\<rparr>
      = (\<lparr>sink = [\<lparr>geom_of = Polygon [[QgsPointXY 12 22, QgsPointXY 12 22,
                        QgsPointXY 12 22, QgsPointXY 12 22, QgsPointXY 12 22]],
                      attributes = [QInt 3, QInt 0, QDouble 40]\<rparr>],
                     numbad = 0, progress = [0]\<rparr>, Finished)"
    using c t by (simp add: e r b build_zero)
  have prm: "PrmShapeType ?p = 0" "PrmLobes ?p = 6" "PrmRadius ?p = 40"
    "PrmUnitsOfMeasure ?p = 0" "PrmDrawingSegments ?p = 4" "PrmExportInputGeometry ?p = False"
    by (simp_all add: demo_params_def)
  show ?thesis
    by (simp add: processAlgorithm_def Let_def prm stub_units float_eval f
        del: feature_loop.simps)
qed

section \<open>The loop over the features, feature by feature\<close>

lemma feature_loop_clean:
  assumes "\<forall>i<length fs. \<not> isCanceled env (index + i)"
    and "\<forall>f\<in>set fs. completes env p is4 loc fuel f"
  shows "sink (fst (feature_loop env p is4 loc fuel index fs st)) =
           sink st @ concat (map (feature_output env p is4 loc fuel) fs)
       \<and> numbad (fst (feature_loop env p is4 loc fuel index fs st)) =
           numbad st + length (filter (rejected env p loc) fs)
       \<and> snd (feature_loop env p is4 loc fuel index fs st) = Finished"
  using assms
proof (induction fs arbitrary: index st)
  case Nil
  show ?case by simp
next
  case (Cons f fs)
  have c: "\<not> isCanceled env index" using Cons.prems(1) by force
  have r: "\<forall>i<length fs. \<not> isCanceled env (Suc index + i)"
  proof (intro allI impI)
    fix i assume "i < length fs"
    then have "Suc i < length (f # fs)" by simp
    with Cons.prems(1) have "\<not> isCanceled env (index + Suc i)" by blast
    then show "\<not> isCanceled env (Suc index + i)" by simp
  qed
  have cf: "completes env p is4 loc fuel f" and cs: "\<forall>f\<in>set fs. completes env p is4 loc fuel f"
    using Cons.prems(2) by simp_all
  show ?case
  proof (cases "resolve_params env p loc f")
    case (Inl e)
    with c Cons.IH [OF r cs, of "st\<lparr>numbad := numbad st + 1\<rparr>"] show ?thesis
      by (simp add: feature_output_def rejected_def)
  next
    case (Inr fp)
    with cf obtain g where b: "build_feature env p is4 loc fuel f fp = Returned g"
      by (auto simp: completes_def split: outcome.splits)
    let ?st = "st\<lparr>sink := sink st @ [g],
                 progress := (if index mod 100 = 0
                    then progress st @ [py_trunc (fmul (int_to_float (int index)) (l_total loc))]
                    else progress st)\<rparr>"
    from c Inr b Cons.IH [OF r cs, of ?st] show ?thesis
      by (simp add: feature_output_def rejected_def)
  qed
qed

lemma feature_loop_take:
  "isCanceled env (index + N) \<Longrightarrow> N \<le> length fs \<Longrightarrow>
   feature_loop env p is4 loc fuel index fs st =
   feature_loop env p is4 loc fuel index (take N fs) st"
proof (induction fs arbitrary: index N st)
  case Nil
  then show ?case by simp
next
  case (Cons f fs)
  show ?case
  proof (cases N)
    case 0
    with Cons.prems show ?thesis by simp
  next
    case (Suc M)
    with Cons.prems have c: "isCanceled env (Suc index + M)" and m: "M \<le> length fs" by simp_all
    show ?thesis
      using Suc Cons.IH [OF c m]
      by (simp split: sum.splits outcome.splits)
  qed
qed

lemma feature_loop_sink:
  "feature_loop env p is4 loc fuel index fs st = (st', e) \<Longrightarrow>
   \<exists>gs. sink st' = sink st @ gs \<and> length gs + numbad st' \<le> length fs + numbad st \<and>
     (\<forall>g\<in>set gs. \<exists>f\<in>set fs. \<exists>fp. resolve_params env p loc f = Inr fp \<and>
        build_feature env p is4 loc fuel f fp = Returned g)"
proof (induction fs arbitrary: index st)
  case Nil
  then show ?case by auto
next
  case (Cons f fs)
  show ?case
  proof (cases "isCanceled env index")
    case True
    with Cons.prems show ?thesis by auto
  next
    case False
    show ?thesis
    proof (cases "resolve_params env p loc f")
      case (Inl x)
      with False Cons.prems
      have "feature_loop env p is4 loc fuel (Suc index) fs (st\<lparr>numbad := numbad st + 1\<rparr>) = (st', e)"
        by simp
      from Cons.IH [OF this] show ?thesis by auto
    next
      case (Inr fp)
      show ?thesis
      proof (cases "build_feature env p is4 loc fuel f fp")
        case Diverged
        with False Inr Cons.prems show ?thesis by auto
      next
        case (Raised x)
        with False Inr Cons.prems show ?thesis by auto
      next
        case (Returned g)
        let ?st = "st\<lparr>sink := sink st @ [g],
                   progress := (if index mod 100 = 0
                      then progress st @ [py_trunc (fmul (int_to_float (int index)) (l_total loc))]
                      else progress st)\<rparr>"
        from False Inr Returned Cons.prems
        have "feature_loop env p is4 loc fuel (Suc index) fs ?st = (st', e)" by simp
        from Cons.IH [OF this] obtain gs where
          s: "sink st' = sink ?st @ gs" and
          l: "length gs + numbad st' \<le> length fs + numbad ?st" and
          a: "\<forall>g\<in>set gs. \<exists>f\<in>set fs. \<exists>fp. resolve_params env p loc f = Inr fp \<and>
                build_feature env p is4 loc fuel f fp = Returned g" by blast
        show ?thesis
          apply (rule exI [of _ "g # gs"])
          using s l a Inr Returned by auto
      qed
    qed
  qed
qed

lemma outputs_count:
  "\<forall>f\<in>set fs. completes env p is4 loc fuel f \<Longrightarrow>
   length (concat (map (feature_output env p is4 loc fuel) fs))
     + length (filter (rejected env p loc) fs) = length fs"
  by (induction fs)
     (auto simp: feature_output_def rejected_def completes_def split: sum.splits outcome.splits)

lemma feature_output_built:
  assumes "g \<in> set (feature_output env p is4 loc fuel f)"
  shows "\<exists>fp. resolve_params env p loc f = Inr fp \<and>
      build_feature env p is4 loc fuel f fp = Returned g"
proof (cases "resolve_params env p loc f")
  case (Inl e)
  with assms show ?thesis by (simp add: feature_output_def)
next
  case (Inr fp)
  show ?thesis
  proof (cases "build_feature env p is4 loc fuel f fp")
    case (Returned g')
    with Inr assms have "g = g'" by (simp add: feature_output_def)
    with Inr Returned show ?thesis by simp
  next
    case Diverged
    with Inr assms show ?thesis by (simp add: feature_output_def)
  next
    case (Raised e)
    with Inr assms show ?thesis by (simp add: feature_output_def)
  qed
qed

lemma outputs_built:
  assumes "g \<in> set (concat (map (feature_output env p is4 loc fuel) fs))"
  shows "\<exists>f\<in>set fs. \<exists>fp. resolve_params env p loc f = Inr fp \<and>
      build_feature env p is4 loc fuel f fp = Returned g"
proof -
  from assms obtain f where "f \<in> set fs" and "g \<in> set (feature_output env p is4 loc fuel f)"
    by auto
  with feature_output_built show ?thesis by blast
qed

lemma rejected_feature_effect:
  assumes "\<forall>i<length (pre @ f # post). \<not> isCanceled env (index + i)"
    and "\<forall>f'\<in>set (pre @ post). completes env p is4 loc fuel f'"
    and "resolve_params env p loc f = Inl e"
  shows "sink (fst (feature_loop env p is4 loc fuel index (pre @ f # post) st)) =
           sink st @ concat (map (feature_output env p is4 loc fuel) pre)
                   @ concat (map (feature_output env p is4 loc fuel) post)
       \<and> numbad (fst (feature_loop env p is4 loc fuel index (pre @ f # post) st)) =
           numbad st + length (filter (rejected env p loc) pre) + 1
                     + length (filter (rejected env p loc) post)
       \<and> snd (feature_loop env p is4 loc fuel index (pre @ f # post) st) = Finished"
proof -
  have cf: "completes env p is4 loc fuel f" using assms(3) by (simp add: completes_def)
  have o: "feature_output env p is4 loc fuel f = []" using assms(3) by (simp add: feature_output_def)
  have r: "rejected env p loc f" using assms(3) by (simp add: rejected_def)
  have all: "\<forall>f'\<in>set (pre @ f # post). completes env p is4 loc fuel f'"
    using assms(2) cf by auto
  from feature_loop_clean [OF assms(1) all, of st] o r show ?thesis by simp
qed

section \<open>The features of the concrete inputs\<close>

lemma resolve_ok:
  "resolve_params stub_env (demo_params\<lparr>PrmLobesField := ''lobes''\<rparr>) demo_locals f_ok = Inr demo_fp"
  "resolve_params cancel_env (demo_params\<lparr>PrmLobesField := ''lobes''\<rparr>) demo_locals f_ok = Inr demo_fp"
  by (simp_all add: resolve_params_def demo_params_def demo_locals_def demo_fp_def f_ok_def
      get_int_def feature_get_def py_int_def stub_env_def cancel_env_def float_eval)

lemma resolve_unparsable:
  "resolve_params stub_env (demo_params\<lparr>PrmLobesField := ''lobes''\<rparr>) demo_locals f_unparsable
     = Inl ValueError"
  "resolve_params cancel_env (demo_params\<lparr>PrmLobesField := ''lobes''\<rparr>) demo_locals f_unparsable
     = Inl ValueError"
  by (simp_all add: resolve_params_def demo_params_def demo_locals_def f_unparsable_def
      get_int_def feature_get_def py_int_def stub_env_def cancel_env_def)

lemma cancel_samples:
  "sample_loop cancel_env 8 (QgsPointXY 10 20) demo_fp 90 0 [] =
     Returned [QgsPointXY 10 20, QgsPointXY 10 20, QgsPointXY 10 20, QgsPointXY 10 20,
               QgsPointXY 10 20]"
  by (simp add: eval_nat_numeral float_eval cancel_env_def stub_env_def demo_fp_def Let_def)

lemma build_ok:
  "build_feature stub_env (demo_params\<lparr>PrmLobesField := ''lobes''\<rparr>) True demo_locals 8 f_ok demo_fp
     = Returned g_ok"
  "build_feature cancel_env (demo_params\<lparr>PrmLobesField := ''lobes''\<rparr>) True demo_locals 8 f_ok demo_fp
     = Returned g_ok"
proof -
  have s: "l_step demo_locals = 90" by (simp add: demo_locals_def)
  have g: "geometry f_ok = QgsPointXY 10 20" by (simp add: f_ok_def)
  show "build_feature stub_env (demo_params\<lparr>PrmLobesField := ''lobes''\<rparr>) True demo_locals 8 f_ok
      demo_fp = Returned g_ok"
    by (simp add: build_feature_def Let_def g s stub_samples makeIdlCrossingsPositive_def
        shift_toward_def demo_params_def f_ok_def g_ok_def)
  show "build_feature cancel_env (demo_params\<lparr>PrmLobesField := ''lobes''\<rparr>) True demo_locals 8 f_ok
      demo_fp = Returned g_ok"
    by (simp add: build_feature_def Let_def g s cancel_samples makeIdlCrossingsPositive_def
        shift_toward_def demo_params_def f_ok_def g_ok_def)
qed

lemma ok_is_written:
  "completes stub_env (demo_params\<lparr>PrmLobesField := ''lobes''\<rparr>) True demo_locals 8 f_ok"
  "feature_output stub_env (demo_params\<lparr>PrmLobesField := ''lobes''\<rparr>) True demo_locals 8 f_ok = [g_ok]"
  "\<not> rejected stub_env (demo_params\<lparr>PrmLobesField := ''lobes''\<rparr>) demo_locals f_ok"
  "completes cancel_env (demo_params\<lparr>PrmLobesField := ''lobes''\<rparr>) True demo_locals 8 f_ok"
  "feature_output cancel_env (demo_params\<lparr>PrmLobesField := ''lobes''\<rparr>) True demo_locals 8 f_ok = [g_ok]"
  "\<not> rejected cancel_env (demo_params\<lparr>PrmLobesField := ''lobes''\<rparr>) demo_locals f_ok"
  by (simp_all add: completes_def feature_output_def rejected_def resolve_ok build_ok)

lemma unparsable_is_rejected:
  "completes cancel_env (demo_params\<lparr>PrmLobesField := ''lobes''\<rparr>) True demo_locals 8 f_unparsable"
  "feature_output cancel_env (demo_params\<lparr>PrmLobesField := ''lobes''\<rparr>) True demo_locals 8
     f_unparsable = []"
  "rejected cancel_env (demo_params\<lparr>PrmLobesField := ''lobes''\<rparr>) demo_locals f_unparsable"
  by (simp_all add: completes_def feature_output_def rejected_def resolve_unparsable)

text \<open>
  C5. A feature with an override field whose value \<open>float\<close> or \<open>int\<close> cannot parse is
  left out of the output and counted exactly once, and the features after it are
  processed as if it were not there. In a run that is not cancelled, where the other
  features are rejected or built to their end, the sink ends with the outputs of the
  features before it followed by the outputs of the features after it, the counter of bad
  features ends one above the number of the other rejected features, and the loop runs
  to its end.
\<close>

theorem unparsable_override_is_skipped:
  assumes "\<forall>i<length (pre @ f # post). \<not> isCanceled env (index + i)"
    and "\<forall>f'\<in>set (pre @ post). completes env p is4 loc fuel f'"
    and "(PrmStartingAngleField p \<noteq> [] \<and> feature_get f (PrmStartingAngleField p) = Inr v
            \<and> py_float env v = Inl e)
       \<or> (PrmLobesField p \<noteq> [] \<and> feature_get f (PrmLobesField p) = Inr v
            \<and> py_int env v = Inl e)
       \<or> (PrmRadiusField p \<noteq> [] \<and> feature_get f (PrmRadiusField p) = Inr v
            \<and> py_float env v = Inl e)"
  shows "sink (fst (feature_loop env p is4 loc fuel index (pre @ f # post) st)) =
           sink st @ concat (map (feature_output env p is4 loc fuel) pre)
                   @ concat (map (feature_output env p is4 loc fuel) post)
       \<and> numbad (fst (feature_loop env p is4 loc fuel index (pre @ f # post) st)) =
           numbad st + length (filter (rejected env p loc) pre) + 1
                     + length (filter (rejected env p loc) post)
       \<and> snd (feature_loop env p is4 loc fuel index (pre @ f # post) st) = Finished"
proof -
  from assms(3) obtain e' where "resolve_params env p loc f = Inl e'"
    using resolve_fails_angle resolve_fails_lobes resolve_fails_radius
      get_float_parse get_int_parse by metis
  with assms(1,2) show ?thesis by (rule rejected_feature_effect)
qed

theorem unparsable_override_is_skipped_witness:
  "sink (fst (feature_loop stub_env (demo_params\<lparr>PrmLobesField := ''lobes''\<rparr>) True demo_locals 8 0
        [f_ok, f_unparsable, f_ok] st0)) = [g_ok, g_ok]
   \<and> numbad (fst (feature_loop stub_env (demo_params\<lparr>PrmLobesField := ''lobes''\<rparr>) True
        demo_locals 8 0 [f_ok, f_unparsable, f_ok] st0)) = 1
   \<and> snd (feature_loop stub_env (demo_params\<lparr>PrmLobesField := ''lobes''\<rparr>) True demo_locals 8 0
        [f_ok, f_unparsable, f_ok] st0) = Finished"
proof -
  let ?p = "demo_params\<lparr>PrmLobesField := ''lobes''\<rparr>"
  have c: "\<forall>i<length ([f_ok] @ f_unparsable # [f_ok]). \<not> isCanceled stub_env (0 + i)"
    by (simp add: stub_env_def)
  have o: "\<forall>f'\<in>set ([f_ok] @ [f_ok]). completes stub_env ?p True demo_locals 8 f'"
    by (simp add: ok_is_written)
  have u: "(PrmStartingAngleField ?p \<noteq> [] \<and> feature_get f_unparsable (PrmStartingAngleField ?p)
              = Inr (QString ''six'') \<and> py_float stub_env (QString ''six'') = Inl ValueError)
       \<or> (PrmLobesField ?p \<noteq> [] \<and> feature_get f_unparsable (PrmLobesField ?p)
              = Inr (QString ''six'') \<and> py_int stub_env (QString ''six'') = Inl ValueError)
       \<or> (PrmRadiusField ?p \<noteq> [] \<and> feature_get f_unparsable (PrmRadiusField ?p)
              = Inr (QString ''six'') \<and> py_float stub_env (QString ''six'') = Inl ValueError)"
    by (simp add: feature_get_def f_unparsable_def py_int_def stub_env_def)
  from unparsable_override_is_skipped [OF c o u, of st0]
  show ?thesis by (simp add: ok_is_written st0_def del: feature_loop.simps)
qed

text \<open>
  C10. When the lobes field of a feature reads as \<open>-2\<close>, \<open>lobes2 + 2.0\<close> is zero and the
  division for the scale radius raises \<open>ZeroDivisionError\<close>. The division is inside the
  \<open>try\<close> block: reading the parameters ends in an exception that is caught, the feature
  adds nothing to the sink and one to the counter of bad features, and the features
  around it are processed: the run does not crash.
\<close>

theorem lobes_minus_two_is_skipped:
  assumes "\<forall>i<length (pre @ f # post). \<not> isCanceled env (index + i)"
    and "\<forall>f'\<in>set (pre @ post). completes env p is4 loc fuel f'"
    and "PrmLobesField p \<noteq> []"
    and "get_int env f (PrmLobesField p) = Inr (- 2)"
  shows "fdiv rad (fadd (int_to_float (- 2)) 2) = Inl ZeroDivisionError
       \<and> (\<exists>e. resolve_params env p loc f = Inl e)
       \<and> sink (fst (feature_loop env p is4 loc fuel index (pre @ f # post) st)) =
           sink st @ concat (map (feature_output env p is4 loc fuel) pre)
                   @ concat (map (feature_output env p is4 loc fuel) post)
       \<and> numbad (fst (feature_loop env p is4 loc fuel index (pre @ f # post) st)) =
           numbad st + length (filter (rejected env p loc) pre) + 1
                     + length (filter (rejected env p loc) post)
       \<and> snd (feature_loop env p is4 loc fuel index (pre @ f # post) st) = Finished"
proof -
  obtain e where r: "resolve_params env p loc f = Inl e"
    using resolve_fails_minus_two [OF assms(3,4)] by blast
  have z: "fdiv rad (fadd (int_to_float (- 2)) 2) = Inl ZeroDivisionError"
    by (simp add: fdiv_def minus_two_plus_two)
  from rejected_feature_effect [OF assms(1,2) r, of st] z r show ?thesis by blast
qed

theorem lobes_minus_two_is_skipped_witness:
  "resolve_params stub_env (demo_params\<lparr>PrmLobesField := ''lobes''\<rparr>) demo_locals f_minus2
       = Inl ZeroDivisionError
   \<and> sink (fst (feature_loop stub_env (demo_params\<lparr>PrmLobesField := ''lobes''\<rparr>) True demo_locals
        8 0 [f_ok, f_minus2, f_ok] st0)) = [g_ok, g_ok]
   \<and> numbad (fst (feature_loop stub_env (demo_params\<lparr>PrmLobesField := ''lobes''\<rparr>) True
        demo_locals 8 0 [f_ok, f_minus2, f_ok] st0)) = 1
   \<and> snd (feature_loop stub_env (demo_params\<lparr>PrmLobesField := ''lobes''\<rparr>) True demo_locals 8 0
        [f_ok, f_minus2, f_ok] st0) = Finished"
proof -
  let ?p = "demo_params\<lparr>PrmLobesField := ''lobes''\<rparr>"
  have c: "\<forall>i<length ([f_ok] @ f_minus2 # [f_ok]). \<not> isCanceled stub_env (0 + i)"
    by (simp add: stub_env_def)
  have o: "\<forall>f'\<in>set ([f_ok] @ [f_ok]). completes stub_env ?p True demo_locals 8 f'"
    by (simp add: ok_is_written)
  have n: "PrmLobesField ?p \<noteq> []" by simp
  have g: "get_int stub_env f_minus2 (PrmLobesField ?p) = Inr (- 2)"
    by (simp add: get_int_def feature_get_def f_minus2_def py_int_def)
  have r: "resolve_params stub_env ?p demo_locals f_minus2 = Inl ZeroDivisionError"
    using g by (simp add: resolve_params_def demo_params_def demo_locals_def
        minus_two_plus_two fdiv_def)
  from lobes_minus_two_is_skipped [OF c o n g, where st = st0 and rad = 0] r
  show ?thesis by (simp add: ok_is_written st0_def del: feature_loop.simps)
qed

text \<open>
  C9. The cancellation signal is read once at the head of each iteration. When it is first
  set at the iteration of index \<open>index + N\<close>, the loop stops there: the run is the run on
  the first \<open>N\<close> features. The sink has gained the outputs of those among them that were
  not rejected, in their order, and nothing else; these and the rejected ones are \<open>N\<close>
  together. Each output is the finished result of building one of these features, after
  its loop over the angles has returned.
\<close>

theorem cancellation_stops_loop:
  assumes "isCanceled env (index + N)"
    and "\<forall>i<N. \<not> isCanceled env (index + i)"
    and "N \<le> length fs"
    and "\<forall>f\<in>set (take N fs). completes env p is4 loc fuel f"
  shows "feature_loop env p is4 loc fuel index fs st =
           feature_loop env p is4 loc fuel index (take N fs) st
       \<and> sink (fst (feature_loop env p is4 loc fuel index fs st)) =
           sink st @ concat (map (feature_output env p is4 loc fuel) (take N fs))
       \<and> numbad (fst (feature_loop env p is4 loc fuel index fs st)) =
           numbad st + length (filter (rejected env p loc) (take N fs))
       \<and> snd (feature_loop env p is4 loc fuel index fs st) = Finished
       \<and> length (concat (map (feature_output env p is4 loc fuel) (take N fs)))
           + length (filter (rejected env p loc) (take N fs)) = N
       \<and> (\<forall>g\<in>set (concat (map (feature_output env p is4 loc fuel) (take N fs))).
            \<exists>f\<in>set (take N fs). \<exists>fp. resolve_params env p loc f = Inr fp \<and>
               build_feature env p is4 loc fuel f fp = Returned g)"
proof -
  have n: "length (take N fs) = N" using assms(3) by simp
  have t: "feature_loop env p is4 loc fuel index fs st =
           feature_loop env p is4 loc fuel index (take N fs) st"
    using assms(1,3) by (rule feature_loop_take)
  have c: "\<forall>i<length (take N fs). \<not> isCanceled env (index + i)"
    using assms(2) n by simp
  from feature_loop_clean [OF c assms(4), of st] outputs_count [OF assms(4)] n t
    outputs_built [of _ env p is4 loc fuel "take N fs"]
  show ?thesis by auto
qed


theorem cancellation_stops_loop_witness:
  "feature_loop cancel_env (demo_params\<lparr>PrmLobesField := ''lobes''\<rparr>) True demo_locals 8 0
        [f_ok, f_unparsable, f_zero] st0 =
   feature_loop cancel_env (demo_params\<lparr>PrmLobesField := ''lobes''\<rparr>) True demo_locals 8 0
        [f_ok, f_unparsable] st0
   \<and> sink (fst (feature_loop cancel_env (demo_params\<lparr>PrmLobesField := ''lobes''\<rparr>) True
        demo_locals 8 0 [f_ok, f_unparsable, f_zero] st0)) = [g_ok]
   \<and> numbad (fst (feature_loop cancel_env (demo_params\<lparr>PrmLobesField := ''lobes''\<rparr>) True
        demo_locals 8 0 [f_ok, f_unparsable, f_zero] st0)) = 1
   \<and> snd (feature_loop cancel_env (demo_params\<lparr>PrmLobesField := ''lobes''\<rparr>) True demo_locals 8 0
        [f_ok, f_unparsable, f_zero] st0) = Finished"
proof -
  let ?p = "demo_params\<lparr>PrmLobesField := ''lobes''\<rparr>"
  have c: "isCanceled cancel_env (0 + 2)" by (simp add: cancel_env_def)
  have b: "\<forall>i<2. \<not> isCanceled cancel_env (0 + i)" by (simp add: cancel_env_def)
  have n: "2 \<le> length [f_ok, f_unparsable, f_zero]" by simp
  have o: "\<forall>f\<in>set (take 2 [f_ok, f_unparsable, f_zero]).
      completes cancel_env ?p True demo_locals 8 f"
    by (simp add: ok_is_written unparsable_is_rejected)
  note t = cancellation_stops_loop [OF c b n o, of st0]
  have e1: "feature_loop cancel_env ?p True demo_locals 8 0 [f_ok, f_unparsable, f_zero] st0 =
      feature_loop cancel_env ?p True demo_locals 8 0 [f_ok, f_unparsable] st0"
    using t [THEN conjunct1] by (simp del: feature_loop.simps)
  have e2: "sink (fst (feature_loop cancel_env ?p True demo_locals 8 0
      [f_ok, f_unparsable, f_zero] st0)) = [g_ok]"
    using t [THEN conjunct2, THEN conjunct1]
    by (simp add: ok_is_written unparsable_is_rejected st0_def del: feature_loop.simps)
  have e3: "numbad (fst (feature_loop cancel_env ?p True demo_locals 8 0
      [f_ok, f_unparsable, f_zero] st0)) = 1"
    using t [THEN conjunct2, THEN conjunct2, THEN conjunct1]
    by (simp add: ok_is_written unparsable_is_rejected st0_def del: feature_loop.simps)
  have e4: "snd (feature_loop cancel_env ?p True demo_locals 8 0
      [f_ok, f_unparsable, f_zero] st0) = Finished"
    using t [THEN conjunct2, THEN conjunct2, THEN conjunct2, THEN conjunct1]
    by (simp del: feature_loop.simps)
  show ?thesis by (intro conjI e1 e2 e3 e4)
qed

section \<open>The attributes and the fields of the output\<close>

lemma build_feature_attributes:
  "build_feature env p is4 loc fuel f fp = Returned g \<Longrightarrow>
   attributes g = map snd (attrs f) @
     (if PrmExportInputGeometry p
      then [QDouble (pt_x (geometry f)), QDouble (pt_y (geometry f))] else [])"
  by (auto simp: build_feature_def Let_def split: outcome.splits)

lemma processAlgorithm_fields:
  assumes "processAlgorithm env p src fuel = Inr res" and "PrmExportInputGeometry p"
  shows "out_fields res = src_fields src @
     [\<lparr>fname = fst (getGeomNames env (map fname (src_fields src))), ftype = TDouble\<rparr>,
      \<lparr>fname = snd (getGeomNames env (map fname (src_fields src))), ftype = TDouble\<rparr>]"
  using assms
  by (auto simp: processAlgorithm_def Let_def case_prod_beta split: sum.splits prod.splits)

lemma processAlgorithm_sink:
  assumes "processAlgorithm env p src fuel = Inr res"
    and "g \<in> set (sink (out_state res))"
  shows "\<exists>f\<in>set (src_features src). \<exists>loc fp.
     build_feature env p (src_is4326 src) loc fuel f fp = Returned g"
proof -
  from assms(1) obtain r2 where
    r: "fdiv (fmul (PrmRadius p) (conversionToMeters env (PrmUnitsOfMeasure p)))
          (fadd (int_to_float (PrmLobes p)) 2) = Inr r2"
    by (auto simp: processAlgorithm_def Let_def split: sum.splits)
  show ?thesis
  proof (cases "fdiv 360 (int_to_float (PrmDrawingSegments p))")
    case (Inl e)
    with assms r show ?thesis by (auto simp: processAlgorithm_def Let_def)
  next
    case (Inr stp)
    let ?loc = "\<lparr>l_measureFactor = conversionToMeters env (PrmUnitsOfMeasure p),
        l_radius = fmul (PrmRadius p) (conversionToMeters env (PrmUnitsOfMeasure p)),
        l_r2 = r2, l_step = stp,
        l_total = (if src_featureCount src \<noteq> 0
                   then rnd (100 / int_to_float (src_featureCount src)) else 0)\<rparr>"
    obtain st e where l: "feature_loop env p (src_is4326 src) ?loc fuel 0 (src_features src)
        \<lparr>sink = [], numbad = 0, progress = []\<rparr> = (st, e)" by (cases "feature_loop env p
        (src_is4326 src) ?loc fuel 0 (src_features src) \<lparr>sink = [], numbad = 0, progress = []\<rparr>")
    with assms(1) r Inr have "out_state res = st"
      by (auto simp: processAlgorithm_def Let_def simp del: feature_loop.simps)
    then have m: "g \<in> set (sink st)" using assms(2) by simp
    from feature_loop_sink [OF l] obtain gs where
      s: "sink st = sink \<lparr>sink = [], numbad = 0, progress = []\<rparr> @ gs" and
      a: "\<forall>g\<in>set gs. \<exists>f\<in>set (src_features src). \<exists>fp. resolve_params env p ?loc f = Inr fp \<and>
            build_feature env p (src_is4326 src) ?loc fuel f fp = Returned g" by blast
    from m s have "g \<in> set gs" by simp
    with a obtain f fp where "f \<in> set (src_features src)"
      and "build_feature env p (src_is4326 src) ?loc fuel f fp = Returned g" by blast
    then show ?thesis by blast
  qed
qed

text \<open>
  C8. When the flag to export the input geometry is set, the schema of the sink is the
  schema of the input followed by exactly two fields of type double, and the attributes of
  every output feature are the attributes of its input feature followed by exactly two
  values, the \<open>x\<close> and the \<open>y\<close> of the input point as the layer stores it. They are read
  before any transform: whatever the two transforms are, and whether they are applied, the
  attributes are the same.
\<close>

theorem export_appends_original_xy:
  assumes "PrmExportInputGeometry p"
  shows "(build_feature env p is4 loc fuel f fp = Returned g \<longrightarrow>
           attributes g = map snd (attrs f) @
             [QDouble (pt_x (geometry f)), QDouble (pt_y (geometry f))])
     \<and> (build_feature env p is4 loc fuel f fp = Returned g
          \<and> build_feature (env\<lparr>geomTo4326 := t1, toSinkCrs := t2\<rparr>) p is4' loc fuel f fp
              = Returned g'
          \<longrightarrow> attributes g' = attributes g)
     \<and> (processAlgorithm env p src fuel' = Inr res \<longrightarrow>
          out_fields res = src_fields src @
            [\<lparr>fname = fst (getGeomNames env (map fname (src_fields src))), ftype = TDouble\<rparr>,
             \<lparr>fname = snd (getGeomNames env (map fname (src_fields src))), ftype = TDouble\<rparr>]
          \<and> (\<forall>h\<in>set (sink (out_state res)). \<exists>f'\<in>set (src_features src).
                attributes h = map snd (attrs f') @
                  [QDouble (pt_x (geometry f')), QDouble (pt_y (geometry f'))]))"
proof (intro conjI impI ballI)
  assume "build_feature env p is4 loc fuel f fp = Returned g"
  from build_feature_attributes [OF this] assms
  show "attributes g = map snd (attrs f) @
      [QDouble (pt_x (geometry f)), QDouble (pt_y (geometry f))]" by simp
next
  assume a: "build_feature env p is4 loc fuel f fp = Returned g
          \<and> build_feature (env\<lparr>geomTo4326 := t1, toSinkCrs := t2\<rparr>) p is4' loc fuel f fp
              = Returned g'"
  from a build_feature_attributes [of env p is4 loc fuel f fp g]
    build_feature_attributes [of "env\<lparr>geomTo4326 := t1, toSinkCrs := t2\<rparr>" p is4' loc fuel f fp g']
  show "attributes g' = attributes g" by simp
next
  assume "processAlgorithm env p src fuel' = Inr res"
  from processAlgorithm_fields [OF this assms]
  show "out_fields res = src_fields src @
            [\<lparr>fname = fst (getGeomNames env (map fname (src_fields src))), ftype = TDouble\<rparr>,
             \<lparr>fname = snd (getGeomNames env (map fname (src_fields src))), ftype = TDouble\<rparr>]" .
next
  fix h
  assume r: "processAlgorithm env p src fuel' = Inr res" and h: "h \<in> set (sink (out_state res))"
  from processAlgorithm_sink [OF r h] obtain f' loc' fp' where
    "f' \<in> set (src_features src)"
    "build_feature env p (src_is4326 src) loc' fuel' f' fp' = Returned h" by blast
  with build_feature_attributes [of env p "src_is4326 src" loc' fuel' f' fp' h] assms
  show "\<exists>f'\<in>set (src_features src).
                attributes h = map snd (attrs f') @
                  [QDouble (pt_x (geometry f')), QDouble (pt_y (geometry f'))]" by auto
qed

lemma samples_shifted:
  "sample_loop shifted_env 8 (QgsPointXY (- 90) (- 30)) demo_fp 90 0 [] =
     Returned [QgsPointXY (- 90) (- 30), QgsPointXY (- 90) (- 30), QgsPointXY (- 90) (- 30),
               QgsPointXY (- 90) (- 30), QgsPointXY (- 90) (- 30)]"
  by (simp add: eval_nat_numeral float_eval shifted_env_def stub_env_def demo_fp_def Let_def)

lemma build_shifted:
  "build_feature shifted_env (demo_params\<lparr>PrmExportInputGeometry := True\<rparr>) False demo_locals 8
     f_ok demo_fp =
   Returned \<lparr>geom_of = Polygon [[QgsPointXY 10 20, QgsPointXY 10 20, QgsPointXY 10 20,
                QgsPointXY 10 20, QgsPointXY 10 20]],
             attributes = [QInt 1, QString ''6'', QDouble 40, QDouble 10, QDouble 20]\<rparr>"
proof -
  have g: "geomTo4326 shifted_env 10 20 = QgsPointXY (- 90) (- 30)"
    by (simp add: shifted_env_def)
  have t: "toSinkCrs shifted_env (QgsPointXY (- 90) (- 30)) = QgsPointXY 10 20"
    by (simp add: shifted_env_def)
  have s: "l_step demo_locals = 90" by (simp add: demo_locals_def)
  show ?thesis
    by (simp add: build_feature_def Let_def f_ok_def g t s samples_shifted
        makeIdlCrossingsPositive_def shift_toward_def demo_params_def)
qed

lemma export_run:
  "processAlgorithm shifted_env export_params export_source 8 = Inr export_result"
proof -
  have c: "\<not> isCanceled shifted_env 0" by (simp add: shifted_env_def stub_env_def)
  have u: "conversionToMeters shifted_env 0 = 1000" by (simp add: shifted_env_def stub_env_def)
  have n: "getGeomNames shifted_env (map fname demo_fields) = (''geom_x'', ''geom_y'')"
    by (simp add: shifted_env_def stub_env_def)
  have prm: "PrmShapeType export_params = 0" "PrmLobes export_params = 6"
    "PrmRadius export_params = 40" "PrmUnitsOfMeasure export_params = 0"
    "PrmDrawingSegments export_params = 4" "PrmExportInputGeometry export_params = True"
    by (simp_all add: export_params_def demo_params_def)
  have e: "\<lparr>l_measureFactor = 1000, l_radius = 40000, l_r2 = 5000, l_step = 90, l_total = 100\<rparr>
      = demo_locals\<lparr>l_total := 100\<rparr>" by (simp add: demo_locals_def)
  have r: "resolve_params shifted_env export_params (demo_locals\<lparr>l_total := 100\<rparr>) f_ok
      = Inr demo_fp"
    by (simp add: resolve_params_def export_params_def demo_params_def demo_locals_def demo_fp_def)
  have b: "build_feature shifted_env export_params False (demo_locals\<lparr>l_total := 100\<rparr>) 8 f_ok
      demo_fp = Returned g_export"
    using build_shifted by (simp add: build_feature_def export_params_def g_export_def)
  have t: "py_trunc (fmul (int_to_float 0) 100) = 0" by (simp add: py_trunc_def float_eval)
  have f: "feature_loop shifted_env export_params False
      \<lparr>l_measureFactor = 1000, l_radius = 40000, l_r2 = 5000, l_step = 90, l_total = 100\<rparr>
      8 0 [f_ok] \<lparr>sink = [], numbad = 0, progress = []\<rparr>
      = (\<lparr>sink = [g_export], numbad = 0, progress = [0]\<rparr>, Finished)"
    using c t by (simp add: e r b)
  show ?thesis
    by (simp add: processAlgorithm_def Let_def prm u n float_eval f export_source_def
        export_result_def del: feature_loop.simps)
qed

theorem export_appends_original_xy_witness:
  "processAlgorithm shifted_env export_params export_source 8 = Inr export_result
   \<and> out_fields export_result = demo_fields @
       [\<lparr>fname = ''geom_x'', ftype = TDouble\<rparr>, \<lparr>fname = ''geom_y'', ftype = TDouble\<rparr>]
   \<and> map attributes (sink (out_state export_result)) =
       [[QInt 1, QString ''6'', QDouble 40, QDouble 10, QDouble 20]]
   \<and> attributes g_export = map snd (attrs f_ok) @
       [QDouble (pt_x (geometry f_ok)), QDouble (pt_y (geometry f_ok))]"
proof -
  have e: "PrmExportInputGeometry export_params" by (simp add: export_params_def)
  have b: "build_feature shifted_env export_params False demo_locals 8 f_ok demo_fp
      = Returned g_export"
    using build_shifted by (simp add: export_params_def g_export_def)
  note t = export_appends_original_xy [OF e, of shifted_env False demo_locals 8 f_ok demo_fp
      g_export _ _ _ _ export_source 8 export_result]
  have a: "attributes g_export = map snd (attrs f_ok) @
       [QDouble (pt_x (geometry f_ok)), QDouble (pt_y (geometry f_ok))]"
    using t [THEN conjunct1] b by blast
  have o: "out_fields export_result = demo_fields @
       [\<lparr>fname = ''geom_x'', ftype = TDouble\<rparr>, \<lparr>fname = ''geom_y'', ftype = TDouble\<rparr>]"
    using t [THEN conjunct2, THEN conjunct2] export_run
    by (simp add: export_source_def shifted_env_def stub_env_def)
  have m: "map attributes (sink (out_state export_result)) =
       [[QInt 1, QString ''6'', QDouble 40, QDouble 10, QDouble 20]]"
    by (simp add: export_result_def g_export_def)
  show ?thesis by (intro conjI export_run o m a)
qed

section \<open>The antimeridian normalizer\<close>









lemma step_up:
  assumes "a \<in> {r - 360, r, r + 360}" and "b \<in> {r - 200 - 360, r - 200, r - 200 + 360}"
    and "\<not> 180 < \<bar>a - b\<bar>"
  shows "b = a + (160 :: rat)"
  using assms by auto

lemma step_on:
  assumes "a \<in> {r - 360, r, r + 360}" and "b \<in> {r + 160 - 360, r + 160, r + 160 + 360}"
    and "\<not> 180 < \<bar>a - b\<bar>"
  shows "b = a + (160 :: rat)"
  using assms by auto

text \<open>
  No choice of shifts by 0 or 360 degrees either way clears the path that goes three times
  around the pole: whatever a normalizer that only translates by 360 degrees does with
  it, a jump of more than 180 degrees remains.
\<close>

lemma no_shift_clears_spiral:
  assumes "length out = length spiral_path"
    and "\<forall>i<length spiral_path. pt_x (out ! i) - pt_x (spiral_path ! i) \<in> {- 360, 0, 360}"
  shows "hasIdlCrossing out"
proof (rule ccontr)
  assume n: "\<not> hasIdlCrossing out"
  from assms(1) obtain o0 o1 o2 o3 o4 o5 where o: "out = [o0, o1, o2, o3, o4, o5]"
    by (auto simp: spiral_path_def length_Suc_conv)
  have m0: "pt_x o0 \<in> {100 - 360, 100, 100 + 360}"
    using assms(2) [rule_format, of 0] by (auto simp: o spiral_path_def)
  have m1: "pt_x o1 \<in> {100 - 200 - 360, 100 - 200, 100 - 200 + 360}"
    using assms(2) [rule_format, of 1] by (auto simp: o spiral_path_def)
  have m2: "pt_x o2 \<in> {- 100 + 160 - 360, - 100 + 160, - 100 + 160 + 360}"
    using assms(2) [rule_format, of 2] by (auto simp: o spiral_path_def)
  have m3: "pt_x o3 \<in> {60 - 200 - 360, 60 - 200, 60 - 200 + 360}"
    using assms(2) [rule_format, of 3] by (auto simp: o spiral_path_def)
  have m4: "pt_x o4 \<in> {- 140 + 160 - 360, - 140 + 160, - 140 + 160 + 360}"
    using assms(2) [rule_format, of 4] by (auto simp: o spiral_path_def)
  have m5: "pt_x o5 \<in> {20 - 200 - 360, 20 - 200, 20 - 200 + 360}"
    using assms(2) [rule_format, of 5] by (auto simp: o spiral_path_def)
  from n have j: "\<not> 180 < \<bar>pt_x o0 - pt_x o1\<bar>" "\<not> 180 < \<bar>pt_x o1 - pt_x o2\<bar>"
    "\<not> 180 < \<bar>pt_x o2 - pt_x o3\<bar>" "\<not> 180 < \<bar>pt_x o3 - pt_x o4\<bar>"
    "\<not> 180 < \<bar>pt_x o4 - pt_x o5\<bar>"
    by (simp_all add: o)
  have e1: "pt_x o1 = pt_x o0 + 160" using m0 m1 j(1) by (rule step_up)
  have m1': "pt_x o1 \<in> {- 100 - 360, - 100, - 100 + 360}" using m1 by simp
  have e2: "pt_x o2 = pt_x o1 + 160" using m1' m2 j(2) by (rule step_on)
  have m2': "pt_x o2 \<in> {60 - 360, 60, 60 + 360}" using m2 by simp
  have e3: "pt_x o3 = pt_x o2 + 160" using m2' m3 j(3) by (rule step_up)
  have m3': "pt_x o3 \<in> {- 140 - 360, - 140, - 140 + 360}" using m3 by simp
  have e4: "pt_x o4 = pt_x o3 + 160" using m3' m4 j(4) by (rule step_on)
  have m4': "pt_x o4 \<in> {20 - 360, 20, 20 + 360}" using m4 by simp
  have e5: "pt_x o5 = pt_x o4 + 160" using m4' m5 j(5) by (rule step_up)
  from e1 e2 e3 e4 e5 have "pt_x o5 = pt_x o0 + 800" by simp
  with m0 m5 show False by auto
qed




end
